theory Spec2Isabelle
  imports Main "HOL-Library.Word"
begin

section \<open>The cost estimator: scripts/estimate-cost.js\<close>

text \<open>
  The script runs under Hardhat with the hardhat-ethers plugin of ethers version 6
  (\<^verbatim>\<open>hre.ethers.formatUnits\<close>, \<^verbatim>\<open>waitForDeployment\<close>): the gas estimate and the gas
  price are JavaScript BigInt values, so they are unbounded integers, type \<open>int\<close>, and
  \<^verbatim>\<open>estimatedGas * gasPrice\<close> is the exact product. The \<^verbatim>\<open>gasPrice\<close> field of the fee
  data is \<^verbatim>\<open>null | bigint\<close>: an \<open>int option\<close>.

  The toolkit (provider, contract factory, unit formatting) is not part of the repository.
  It is the parameter \<open>hre\<close> of \<open>main\<close>: a record of the outcome of each call the script
  makes. Every awaited call may reject and every formatting call may throw: each returns
  \<open>error + 'a\<close>, \<open>Inl\<close> for the thrown value.
\<close>

datatype error =
    RpcError string
  | TypeError string
  | InvalidArgument string
  | RangeError string
  | ModuleNotFound string
  | SyntaxError string
  | ConfigError string

subsection \<open>BigInt to decimal string\<close>

definition digit :: "nat \<Rightarrow> char" where
  "digit d = ''0123456789'' ! (d mod 10)"

function dec :: "nat \<Rightarrow> string" where
  "dec n = (if n < 10 then [digit n] else dec (n div 10) @ [digit (n mod 10)])"
  by pat_completeness auto
termination
  by (relation "measure (\<lambda>n. n)") auto

declare dec.simps [simp del]

text \<open>\<^verbatim>\<open>BigInt.prototype.toString()\<close>: decimal digits, a minus sign for a negative value.\<close>

definition toString :: "int \<Rightarrow> string" where
  "toString v = (if v < 0 then ''-'' @ dec (nat (- v)) else dec (nat v))"

subsection \<open>The toolkit and the process\<close>

type_synonym factory = string

record tx =
  data :: string

record feeData =
  gasPrice :: "int option"
  maxFeePerGas :: "int option"
  maxPriorityFeePerGas :: "int option"

record hre =
  getContractFactory :: "string \<Rightarrow> error + factory"
  getDeployTransaction :: "factory \<Rightarrow> tx"
  estimateGas :: "tx \<Rightarrow> error + int"
  getFeeData :: "error + feeData"
  formatUnits :: "int option \<Rightarrow> string \<Rightarrow> error + string"
  formatEther :: "int \<Rightarrow> error + string"

text \<open>
  What the process does that can be seen from outside, in order: the calls it makes to
  the toolkit, the lines it writes to the output stream and the errors it writes to the
  error stream.
\<close>

datatype call =
    GetContractFactory string
  | GetDeployTransaction factory
  | EstimateGas tx
  | GetFeeData
  | FormatUnits "int option" string
  | FormatEther int

record process =
  calls :: "call list"
  stdout :: "string list"
  stderr :: "error list"

definition start :: process where
  "start = \<lparr>calls = [], stdout = [], stderr = []\<rparr>"

definition called :: "call \<Rightarrow> process \<Rightarrow> process" where
  "called c p = p\<lparr>calls := calls p @ [c]\<rparr>"

definition console_log :: "string \<Rightarrow> process \<Rightarrow> process" where
  "console_log s p = p\<lparr>stdout := stdout p @ [s]\<rparr>"

definition console_error :: "error \<Rightarrow> process \<Rightarrow> process" where
  "console_error e p = p\<lparr>stderr := stderr p @ [e]\<rparr>"

text \<open>
  \<^verbatim>\<open>estimatedGas * gasPrice\<close> (line 20): the product of two BigInts; a BigInt times
  \<^verbatim>\<open>null\<close> throws a TypeError.
\<close>

definition mul :: "int \<Rightarrow> int option \<Rightarrow> error + int" where
  "mul a b = (case b of
      None \<Rightarrow> Inl (TypeError ''Cannot mix BigInt and other types, use explicit conversions'')
    | Some b' \<Rightarrow> Inr (a * b'))"

text \<open>
  \<^verbatim>\<open>main\<close>, lines 3 to 22, statement by statement. A rejected await or a thrown error
  ends the function there: nothing after it runs.
\<close>

definition main :: "hre \<Rightarrow> process \<Rightarrow> (error + unit) \<times> process" where
  "main h p0 =
    (let p1 = called (GetContractFactory ''Box'') p0 in
     (case getContractFactory h ''Box'' of Inl e \<Rightarrow> (Inl e, p1) | Inr Box \<Rightarrow>
     (let p2 = called (GetDeployTransaction Box) p1;
          t = getDeployTransaction h Box;
          p3 = called (EstimateGas t) p2 in
     (case estimateGas h t of Inl e \<Rightarrow> (Inl e, p3) | Inr estimatedGas \<Rightarrow>
     (let p4 = console_log (''Estimated gas: '' @ toString estimatedGas) p3;
          p5 = called GetFeeData p4 in
     (case getFeeData h of Inl e \<Rightarrow> (Inl e, p5) | Inr fd \<Rightarrow>
     (let price = gasPrice fd;
          p6 = called (FormatUnits price ''gwei'') p5 in
     (case formatUnits h price ''gwei'' of Inl e \<Rightarrow> (Inl e, p6) | Inr s \<Rightarrow>
     (let p7 = console_log (''Current gas price: '' @ s @ '' gwei'') p6 in
     (case mul estimatedGas price of Inl e \<Rightarrow> (Inl e, p7) | Inr totalCost \<Rightarrow>
     (let p8 = called (FormatEther totalCost) p7 in
     (case formatEther h totalCost of Inl e \<Rightarrow> (Inl e, p8) | Inr s' \<Rightarrow>
       (Inr (), console_log (''Estimated deployment cost: '' @ s' @ '' ETH'') p8)))))))))))))"

text \<open>
  Lines 24 to 29: \<^verbatim>\<open>main().then(() => process.exit(0)).catch(...)\<close>. The result is the
  process as it ended and its exit code.
\<close>

definition script :: "hre \<Rightarrow> process \<times> int" where
  "script h = (case main h start of
      (Inr _, p) \<Rightarrow> (p, 0)
    | (Inl e, p) \<Rightarrow> (console_error e p, 1))"

subsection \<open>A toolkit to run the script against\<close>

text \<open>
  The unit formatting of the toolkit is not code of the repository, and \<open>main\<close> does not
  depend on what follows. To run the script on concrete inputs a toolkit is needed: this
  one renders amounts as the ethers library (version 6) documents \<^verbatim>\<open>formatUnits\<close> and
  \<^verbatim>\<open>formatEther\<close>: a fixed-point decimal with the unit's number of decimals, the zeros at
  both ends trimmed, and always one digit at least on each side of the point
  (\<^verbatim>\<open>formatEther(1000000000000000000n)\<close> is \<^verbatim>\<open>"1.0"\<close>). The unit names are ethers'
  (\<^verbatim>\<open>gwei\<close> is the fourth, 9 decimals; \<^verbatim>\<open>ether\<close> is 18). The library holds the
  amount in a signed fixed-point format 512 bits wide, and throws a RangeError for an
  amount outside it: \<open>fits\<close> is that range.
\<close>

definition ethers_names :: "string list" where
  "ethers_names = [''wei'', ''kwei'', ''mwei'', ''gwei'', ''szabo'', ''finney'', ''ether'']"

fun indexOf :: "'a list \<Rightarrow> 'a \<Rightarrow> nat option" where
  "indexOf [] x = None"
| "indexOf (y # ys) x = (if y = x then Some 0 else map_option Suc (indexOf ys x))"

fun trim_zeros :: "string \<Rightarrow> string" where
  "trim_zeros (c # d # cs) = (if c = CHR ''0'' then trim_zeros (d # cs) else c # d # cs)"
| "trim_zeros cs = cs"

definition fixed :: "nat \<Rightarrow> int \<Rightarrow> string" where
  "fixed decimals v =
    (let negative = (if v < 0 then ''-'' else []);
         str = dec (nat \<bar>v\<bar>) in
     if decimals = 0 then negative @ str
     else
       (let padded = replicate (Suc decimals - length str) CHR ''0'' @ str;
            index = length padded - decimals
        in negative @ trim_zeros (take index padded) @ ''.'' @
           rev (trim_zeros (rev (drop index padded)))))"

definition fits :: "int \<Rightarrow> bool" where
  "fits v = (- (2 ^ 511) \<le> v \<and> v < 2 ^ 511)"

definition ethers_formatUnits :: "int option \<Rightarrow> string \<Rightarrow> error + string" where
  "ethers_formatUnits v unit =
    (case indexOf ethers_names unit of
       None \<Rightarrow> Inl (InvalidArgument ''invalid unit'')
     | Some i \<Rightarrow>
        (case v of
           None \<Rightarrow> Inl (InvalidArgument ''invalid BigNumberish value'')
         | Some x \<Rightarrow>
            (if fits x then Inr (fixed (3 * i) x) else Inl (RangeError ''overflow''))))"

definition ethers_formatEther :: "int \<Rightarrow> error + string" where
  "ethers_formatEther v =
    (if fits v then Inr (fixed 18 v) else Inl (RangeError ''overflow''))"

text \<open>
  A node that answers the gas estimation with \<open>g\<close> and the fee request with \<open>f\<close> (either
  can be a rejection), behind that toolkit.
\<close>

definition node :: "(error + int) \<Rightarrow> (error + feeData) \<Rightarrow> hre" where
  "node g f =
    \<lparr>getContractFactory = (\<lambda>name. Inr name),
     getDeployTransaction = (\<lambda>fac. \<lparr>data = fac\<rparr>),
     estimateGas = (\<lambda>t. g),
     getFeeData = f,
     formatUnits = ethers_formatUnits,
     formatEther = ethers_formatEther\<rparr>"

definition legacy :: "int \<Rightarrow> feeData" where
  "legacy p = \<lparr>gasPrice = Some p, maxFeePerGas = None, maxPriorityFeePerGas = None\<rparr>"

section \<open>The Box contract\<close>

text \<open>
  The Solidity source of the contract is in the workshop text (lines 79 to 93). Its state
  is the one variable \<^verbatim>\<open>_value\<close>, a \<^verbatim>\<open>uint256\<close>: a 256-bit word, zero in a freshly
  deployed contract. The event log is state of the chain that the contract appends to. A
  call returns its result and the state after it; a failed \<^verbatim>\<open>require\<close> reverts: the
  call returns the reason and the state is the one before the call. Gas and the value
  sent with a call are outside the model.
\<close>

type_synonym uint256 = "256 word"

datatype event = ValueChanged uint256

datatype revert = Revert string

record Box =
  value' :: uint256
  log :: "event list"

definition deployed :: Box where
  "deployed = \<lparr>value' = 0, log = []\<rparr>"

definition store :: "uint256 \<Rightarrow> Box \<Rightarrow> (revert + unit) \<times> Box" where
  "store v s =
    (if v > 0 then (Inr (), s\<lparr>value' := v, log := log s @ [ValueChanged v]\<rparr>)
     else (Inl (Revert ''Value must be greater than 0''), s))"

definition retrieve :: "Box \<Rightarrow> uint256 \<times> Box" where
  "retrieve s = (value' s, s)"

text \<open>A history of calls to a deployed contract, and the state it leaves.\<close>

datatype message = Store uint256 | Retrieve

fun transact :: "Box \<Rightarrow> message \<Rightarrow> Box" where
  "transact s (Store v) = snd (store v s)"
| "transact s Retrieve = snd (retrieve s)"

definition history :: "message list \<Rightarrow> Box" where
  "history ms = foldl transact deployed ms"

text \<open>
  What the claims say \<^verbatim>\<open>retrieve\<close> returns after a history, in the words of the
  specification and not from the code: the argument of the last successful \<^verbatim>\<open>store\<close>,
  which is the last stored argument that is not zero, and zero when there is none.
\<close>

definition successful_stores :: "message list \<Rightarrow> uint256 list" where
  "successful_stores ms = concat (map (\<lambda>m. case m of Store v \<Rightarrow> (if v = 0 then [] else [v]) | Retrieve \<Rightarrow> []) ms)"

definition last_stored :: "message list \<Rightarrow> uint256" where
  "last_stored ms = (case rev (successful_stores ms) of [] \<Rightarrow> 0 | v # _ \<Rightarrow> v)"

section \<open>The configuration module: hardhat.config.js\<close>

text \<open>
  The module is evaluated by Node: \<^verbatim>\<open>require\<close> of a package throws when the package
  is not installed; \<^verbatim>\<open>require\<close> of a \<^verbatim>\<open>.json\<close> file reads the file and parses it, and
  throws when the file is missing or its text is not JSON. The file system and the JSON
  parser are Node's: they are the fields of \<open>node_env\<close>.

  A JSON value is \<^verbatim>\<open>null\<close>, a string, an object, or another value (a number, a boolean,
  an array) that carries the string JavaScript converts it to.
\<close>

datatype json = JNull | JString string | JObject "(string \<times> json) list" | JOther string

record node_env =
  installed :: "string list"
  files :: "string \<rightharpoonup> string"
  JSON_parse :: "string \<Rightarrow> json option"

definition require_package :: "node_env \<Rightarrow> string \<Rightarrow> error + unit" where
  "require_package env name =
    (if name \<in> set (installed env) then Inr () else Inl (ModuleNotFound name))"

definition require_json :: "node_env \<Rightarrow> string \<Rightarrow> error + json" where
  "require_json env path =
    (case files env path of
       None \<Rightarrow> Inl (ModuleNotFound path)
     | Some text \<Rightarrow>
        (case JSON_parse env text of
           None \<Rightarrow> Inl (SyntaxError path)
         | Some j \<Rightarrow> Inr j))"

text \<open>
  Reading a property in a destructuring pattern: \<^verbatim>\<open>null\<close> throws, an object gives the
  value of the key (the last one, when the text repeats a key) or \<^verbatim>\<open>undefined\<close>, which
  is \<open>None\<close>; the other values have no such property.
\<close>

definition property :: "json \<Rightarrow> string \<Rightarrow> error + json option" where
  "property j k =
    (case j of
       JNull \<Rightarrow> Inl (TypeError (''Cannot destructure property '' @ k))
     | JObject kvs \<Rightarrow> Inr (map_of (rev kvs) k)
     | JString s \<Rightarrow> Inr None
     | JOther s \<Rightarrow> Inr None)"

text \<open>The conversion to a string inside a template literal.\<close>

definition String :: "json option \<Rightarrow> string" where
  "String v =
    (case v of
       None \<Rightarrow> ''undefined''
     | Some JNull \<Rightarrow> ''null''
     | Some (JString s) \<Rightarrow> s
     | Some (JObject kvs) \<Rightarrow> ''[object Object]''
     | Some (JOther s) \<Rightarrow> s)"

record network =
  url :: string
  accounts_mnemonic :: "json option"

record config =
  solidity :: string
  networks :: "(string \<times> network) list"

definition hardhat_config :: "node_env \<Rightarrow> error + config" where
  "hardhat_config env =
    (case require_package env ''@nomicfoundation/hardhat-ethers'' of Inl e \<Rightarrow> Inl e | Inr u \<Rightarrow>
    (case require_json env ''./secrets.json'' of Inl e \<Rightarrow> Inl e | Inr secrets \<Rightarrow>
    (case property secrets ''alchemyApiKey'' of Inl e \<Rightarrow> Inl e | Inr alchemyApiKey \<Rightarrow>
    (case property secrets ''mnemonic'' of Inl e \<Rightarrow> Inl e | Inr mnemonic \<Rightarrow>
      Inr \<lparr>solidity = ''0.8.28'',
           networks =
             [(''sepolia'',
               \<lparr>url = ''https://eth-sepolia.g.alchemy.com/v2/'' @ String alchemyApiKey,
                accounts_mnemonic = mnemonic\<rparr>)]\<rparr>))))"

text \<open>
  Modelled from the spec: the task runner that runs a script on a named network is the
  development framework's and is not in the repository. Section 6: the configuration is
  consumed at process start; selecting a network name that is not configured fails fast
  with a configuration error; the exit code is 1 on any thrown error, the error detail
  written to the error stream. The framework's own networks are \<^verbatim>\<open>hardhat\<close> and
  \<^verbatim>\<open>localhost\<close>. \<open>connect\<close> stands for the framework's construction of the runtime
  environment of the chosen network.
\<close>

definition hardhat_run ::
  "node_env \<Rightarrow> (config \<Rightarrow> string \<Rightarrow> hre) \<Rightarrow> string \<Rightarrow> (hre \<Rightarrow> process \<times> int) \<Rightarrow> process \<times> int" where
  "hardhat_run env connect name scr =
    (case hardhat_config env of
       Inl e \<Rightarrow> (console_error e start, 1)
     | Inr cfg \<Rightarrow>
        (if name \<in> set (''hardhat'' # ''localhost'' # map fst (networks cfg))
         then scr (connect cfg name)
         else (console_error (ConfigError (''Network '' @ name @ '' is not defined'')) start, 1)))"

section \<open>The runs of the estimator\<close>

lemmas process_ops = called_def console_log_def console_error_def start_def

text \<open>The run that ends at the gas estimation.\<close>

lemma script_estimate_rejects:
  assumes "getContractFactory h ''Box'' = Inr b"
    and "estimateGas h (getDeployTransaction h b) = Inl e"
  shows "script h =
    (\<lparr>calls = [GetContractFactory ''Box'', GetDeployTransaction b,
               EstimateGas (getDeployTransaction h b)],
      stdout = [], stderr = [e]\<rparr>, 1)"
  using assms by (simp add: script_def main_def process_ops)

text \<open>The run that ends at the fee request.\<close>

lemma script_fee_rejects:
  assumes "getContractFactory h ''Box'' = Inr b"
    and "estimateGas h (getDeployTransaction h b) = Inr G"
    and "getFeeData h = Inl e"
  shows "script h =
    (\<lparr>calls = [GetContractFactory ''Box'', GetDeployTransaction b,
               EstimateGas (getDeployTransaction h b), GetFeeData],
      stdout = [''Estimated gas: '' @ toString G], stderr = [e]\<rparr>, 1)"
  using assms by (simp add: script_def main_def process_ops)

text \<open>The calls of a run that reaches the multiplication, whatever the last formatting does.\<close>

lemma script_calls:
  assumes "getContractFactory h ''Box'' = Inr b"
    and "estimateGas h (getDeployTransaction h b) = Inr G"
    and "getFeeData h = Inr fd"
    and "gasPrice fd = Some P"
    and "formatUnits h (Some P) ''gwei'' = Inr u"
  shows "calls (fst (script h)) =
    [GetContractFactory ''Box'', GetDeployTransaction b,
     EstimateGas (getDeployTransaction h b), GetFeeData,
     FormatUnits (Some P) ''gwei'', FormatEther (G * P)]"
  using assms
  by (cases "formatEther h (G * P)") (simp_all add: script_def main_def mul_def process_ops)

text \<open>The run that completes.\<close>

lemma script_completes:
  assumes "getContractFactory h ''Box'' = Inr b"
    and "estimateGas h (getDeployTransaction h b) = Inr G"
    and "getFeeData h = Inr fd"
    and "gasPrice fd = Some P"
    and "formatUnits h (Some P) ''gwei'' = Inr u"
    and "formatEther h (G * P) = Inr s"
  shows "script h =
    (\<lparr>calls = [GetContractFactory ''Box'', GetDeployTransaction b,
               EstimateGas (getDeployTransaction h b), GetFeeData,
               FormatUnits (Some P) ''gwei'', FormatEther (G * P)],
      stdout = [''Estimated gas: '' @ toString G,
                ''Current gas price: '' @ u @ '' gwei'',
                ''Estimated deployment cost: '' @ s @ '' ETH''],
      stderr = []\<rparr>, 0)"
  using assms by (simp add: script_def main_def mul_def process_ops)

text \<open>The runs that end at the other places where a call can throw.\<close>

lemma script_factory_rejects:
  assumes "getContractFactory h ''Box'' = Inl e"
  shows "script h =
    (\<lparr>calls = [GetContractFactory ''Box''], stdout = [], stderr = [e]\<rparr>, 1)"
  using assms by (simp add: script_def main_def process_ops)

lemma script_format_units_throws:
  assumes "getContractFactory h ''Box'' = Inr b"
    and "estimateGas h (getDeployTransaction h b) = Inr G"
    and "getFeeData h = Inr fd"
    and "formatUnits h (gasPrice fd) ''gwei'' = Inl e"
  shows "script h =
    (\<lparr>calls = [GetContractFactory ''Box'', GetDeployTransaction b,
               EstimateGas (getDeployTransaction h b), GetFeeData,
               FormatUnits (gasPrice fd) ''gwei''],
      stdout = [''Estimated gas: '' @ toString G], stderr = [e]\<rparr>, 1)"
  using assms by (simp add: script_def main_def process_ops)

lemma script_mul_throws:
  assumes "getContractFactory h ''Box'' = Inr b"
    and "estimateGas h (getDeployTransaction h b) = Inr G"
    and "getFeeData h = Inr fd"
    and "gasPrice fd = None"
    and "formatUnits h None ''gwei'' = Inr u"
  shows "script h =
    (\<lparr>calls = [GetContractFactory ''Box'', GetDeployTransaction b,
               EstimateGas (getDeployTransaction h b), GetFeeData,
               FormatUnits None ''gwei''],
      stdout = [''Estimated gas: '' @ toString G, ''Current gas price: '' @ u @ '' gwei''],
      stderr = [TypeError ''Cannot mix BigInt and other types, use explicit conversions'']\<rparr>,
     1)"
  using assms by (simp add: script_def main_def mul_def process_ops)

lemma script_format_ether_throws:
  assumes "getContractFactory h ''Box'' = Inr b"
    and "estimateGas h (getDeployTransaction h b) = Inr G"
    and "getFeeData h = Inr fd"
    and "gasPrice fd = Some P"
    and "formatUnits h (Some P) ''gwei'' = Inr u"
    and "formatEther h (G * P) = Inl e"
  shows "script h =
    (\<lparr>calls = [GetContractFactory ''Box'', GetDeployTransaction b,
               EstimateGas (getDeployTransaction h b), GetFeeData,
               FormatUnits (Some P) ''gwei'', FormatEther (G * P)],
      stdout = [''Estimated gas: '' @ toString G, ''Current gas price: '' @ u @ '' gwei''],
      stderr = [e]\<rparr>, 1)"
  using assms by (simp add: script_def main_def mul_def process_ops)

text \<open>
  The script exits with 0 exactly when all six steps that can throw have returned: the
  four toolkit calls that can reject or throw, the price being a BigInt and not
  \<^verbatim>\<open>null\<close>, and the display conversion of the product.
\<close>

lemma script_exit_zero_iff:
  "(snd (script h) = 0) =
    (\<exists>b G fd P u s.
       getContractFactory h ''Box'' = Inr b \<and>
       estimateGas h (getDeployTransaction h b) = Inr G \<and>
       getFeeData h = Inr fd \<and>
       gasPrice fd = Some P \<and>
       formatUnits h (Some P) ''gwei'' = Inr u \<and>
       formatEther h (G * P) = Inr s)"
  by (auto simp: script_def main_def mul_def Let_def split: sum.splits option.splits)

lemma main_stderr: "stderr (snd (main h p)) = stderr p"
  by (simp add: main_def Let_def process_ops split: sum.splits)

lemma main_calls_distinct: "distinct (calls (snd (main h start)))"
  by (simp add: main_def Let_def process_ops split: sum.splits)

lemma main_prints_cost_iff:
  "(length (stdout (snd (main h start))) = 3) = (fst (main h start) = Inr ())"
  by (simp add: main_def Let_def process_ops split: sum.splits)

subsection \<open>The toolkit of the concrete runs\<close>

lemma node_simps:
  "getContractFactory (node g f) n = Inr n"
  "getDeployTransaction (node g f) b = \<lparr>data = b\<rparr>"
  "estimateGas (node g f) t = g"
  "getFeeData (node g f) = f"
  "formatUnits (node g f) = ethers_formatUnits"
  "formatEther (node g f) = ethers_formatEther"
  by (simp_all add: node_def)

lemma gwei_decimals:
  "ethers_formatUnits (Some x) ''gwei'' =
    (if fits x then Inr (fixed 9 x) else Inl (RangeError ''overflow''))"
  by (simp add: ethers_formatUnits_def ethers_names_def)

lemma trim_zeros_zeros: "trim_zeros (CHR ''0'' # replicate n CHR ''0'') = ''0''"
  by (induction n) simp_all

lemma dec_0: "dec 0 = ''0''"
  by (simp add: dec.simps digit_def)

lemma fixed_zero: "fixed (Suc d) 0 = ''0.0''"
  by (simp add: fixed_def Let_def dec_0 trim_zeros_zeros)

lemma fixed_18_zero: "fixed 18 0 = ''0.0''"
  using fixed_zero [of 17] by simp

lemma fixed_18_one: "fixed 18 1000000000000000000 = ''1.0''"
  by (simp add: fixed_def dec.simps digit_def Let_def)

lemma fixed_18_cent: "fixed 18 10000000000000000 = ''0.01''"
  by (simp add: fixed_def dec.simps digit_def Let_def)

lemma fixed_9_20: "fixed 9 20000000000 = ''20.0''"
  by (simp add: fixed_def dec.simps digit_def Let_def)

lemma toString_500000: "toString 500000 = ''500000''"
  by (simp add: toString_def dec.simps digit_def)

lemma toString_0: "toString 0 = ''0''"
  by (simp add: toString_def dec_0)

subsection \<open>The total cost\<close>

text \<open>
  Claim C1. For every gas estimate \<open>G\<close> and every unit price \<open>P\<close> (integers of any size,
  negative ones included), the total cost the estimator computes is the exact product
  \<open>G * P\<close>: the multiplication of line 20 returns it, and it is the amount the script
  hands to the display conversion. The run must reach line 20: the factory, the estimate,
  the fee data and the formatting of the price have succeeded.
\<close>

theorem total_cost_exact:
  assumes "getContractFactory h ''Box'' = Inr b"
    and "estimateGas h (getDeployTransaction h b) = Inr G"
    and "getFeeData h = Inr fd"
    and "gasPrice fd = Some P"
    and "formatUnits h (Some P) ''gwei'' = Inr u"
  shows "mul G (gasPrice fd) = Inr (G * P) \<and>
    calls (fst (script h)) =
      [GetContractFactory ''Box'', GetDeployTransaction b,
       EstimateGas (getDeployTransaction h b), GetFeeData,
       FormatUnits (Some P) ''gwei'', FormatEther (G * P)]"
proof
  show "mul G (gasPrice fd) = Inr (G * P)"
    using assms(4) by (simp add: mul_def)
  show "calls (fst (script h)) =
      [GetContractFactory ''Box'', GetDeployTransaction b,
       EstimateGas (getDeployTransaction h b), GetFeeData,
       FormatUnits (Some P) ''gwei'', FormatEther (G * P)]"
    using assms by (rule script_calls)
qed

text \<open>
  A gas estimate above \<open>2 ^ 53\<close>, beyond the integers a double-precision number holds
  exactly: \<open>9007199254740993 * 3 = 27021597764222979\<close>, to the last digit.
\<close>

theorem total_cost_exact_witness:
  "(2::int) ^ 53 < 9007199254740993 \<and>
   mul 9007199254740993 (gasPrice (legacy 3)) = Inr 27021597764222979 \<and>
   calls (fst (script (node (Inr 9007199254740993) (Inr (legacy 3))))) =
     [GetContractFactory ''Box'', GetDeployTransaction ''Box'',
      EstimateGas \<lparr>data = ''Box''\<rparr>, GetFeeData,
      FormatUnits (Some 3) ''gwei'', FormatEther 27021597764222979]"
  using total_cost_exact [of "node (Inr 9007199254740993) (Inr (legacy 3))" "''Box''"
      9007199254740993 "legacy 3" 3 "fixed 9 3"]
  by (simp add: node_simps gwei_decimals fits_def legacy_def)

subsection \<open>The display conversion\<close>

text \<open>
  Claim C2, as amended. The conversion applied to the total cost is the toolkit's
  \<^verbatim>\<open>formatEther\<close>, called with the smallest-unit amount and nothing else; the script
  prints its result unchanged between \<^verbatim>\<open>Estimated deployment cost: \<close> and \<^verbatim>\<open> ETH\<close>.
  When the toolkit renders the total as ethers does, the printed string is the
  fixed-point decimal of the amount with 18 decimals: a total of \<open>10 ^ 18\<close> prints
  \<^verbatim>\<open>1.0\<close> and a total of \<open>0\<close> prints \<^verbatim>\<open>0.0\<close>. A total outside the 512-bit range
  of the library makes the conversion throw: no cost line is printed, and the last line
  is the one of the price.
\<close>

theorem display_conversion:
  assumes "getContractFactory h ''Box'' = Inr b"
    and "estimateGas h (getDeployTransaction h b) = Inr G"
    and "getFeeData h = Inr fd"
    and "gasPrice fd = Some P"
    and "formatUnits h (Some P) ''gwei'' = Inr u"
    and "formatEther h (G * P) = ethers_formatEther (G * P)"
  shows "last (stdout (fst (script h))) =
      (if fits (G * P) then ''Estimated deployment cost: '' @ fixed 18 (G * P) @ '' ETH''
       else ''Current gas price: '' @ u @ '' gwei'')
    \<and> (G * P = 1000000000000000000 \<longrightarrow>
          last (stdout (fst (script h))) = ''Estimated deployment cost: 1.0 ETH'')
    \<and> (G * P = 0 \<longrightarrow> last (stdout (fst (script h))) = ''Estimated deployment cost: 0.0 ETH'')"
proof -
  have line: "last (stdout (fst (script h))) =
      (if fits (G * P) then ''Estimated deployment cost: '' @ fixed 18 (G * P) @ '' ETH''
       else ''Current gas price: '' @ u @ '' gwei'')"
  proof (cases "fits (G * P)")
    case True
    then have s: "formatEther h (G * P) = Inr (fixed 18 (G * P))"
      using assms(6) by (simp add: ethers_formatEther_def)
    show ?thesis
      using script_completes [OF assms(1-5) s] True by simp
  next
    case False
    then have s: "formatEther h (G * P) = Inl (RangeError ''overflow'')"
      using assms(6) by (simp add: ethers_formatEther_def)
    show ?thesis
      using script_format_ether_throws [OF assms(1-5) s] False by simp
  qed
  have one: "fits 1000000000000000000" and zero: "fits 0"
    by (simp_all add: fits_def)
  show ?thesis
    using line one zero by (auto simp: fixed_18_one fixed_18_zero simp del: mult_eq_0_iff)
qed

text \<open>Two complete runs: 50000000 gas at 20 gwei is one ether; no gas is nothing.\<close>

theorem display_conversion_witness:
  "last (stdout (fst (script (node (Inr 50000000) (Inr (legacy 20000000000)))))) =
     ''Estimated deployment cost: 1.0 ETH'' \<and>
   last (stdout (fst (script (node (Inr 0) (Inr (legacy 20000000000)))))) =
     ''Estimated deployment cost: 0.0 ETH''"
  using display_conversion [of "node (Inr 50000000) (Inr (legacy 20000000000))" "''Box''"
      50000000 "legacy 20000000000" 20000000000 "fixed 9 20000000000"]
    display_conversion [of "node (Inr 0) (Inr (legacy 20000000000))" "''Box''"
      0 "legacy 20000000000" 20000000000 "fixed 9 20000000000"]
  by (simp add: node_simps gwei_decimals fits_def legacy_def fixed_18_one fixed_18_zero)

text \<open>
  Claim C2 as the specification words it, that one ether prints as \<^verbatim>\<open>1\<close> and nothing
  as \<^verbatim>\<open>0\<close>, fails: the rendering keeps a digit after the point.
\<close>

theorem display_of_one_unit_counterexample:
  "stdout (fst (script (node (Inr 50000000) (Inr (legacy 20000000000))))) =
     [''Estimated gas: 50000000'', ''Current gas price: 20.0 gwei'',
      ''Estimated deployment cost: 1.0 ETH''] \<and>
   ethers_formatEther 1000000000000000000 \<noteq> Inr ''1'' \<and>
   ethers_formatEther 0 \<noteq> Inr ''0''"
proof -
  have "toString 50000000 = ''50000000''"
    by (simp add: toString_def dec.simps digit_def)
  moreover have "formatEther (node (Inr 50000000) (Inr (legacy 20000000000))) (50000000 * 20000000000)
      = Inr ''1.0''"
    by (simp add: node_simps ethers_formatEther_def fits_def fixed_18_one)
  ultimately have "stdout (fst (script (node (Inr 50000000) (Inr (legacy 20000000000))))) =
     [''Estimated gas: 50000000'', ''Current gas price: 20.0 gwei'',
      ''Estimated deployment cost: 1.0 ETH'']"
    using script_completes [of "node (Inr 50000000) (Inr (legacy 20000000000))" "''Box''"
      50000000 "legacy 20000000000" 20000000000 "''20.0''" "''1.0''"]
    by (simp add: node_simps gwei_decimals fits_def legacy_def fixed_9_20)
  then show ?thesis
    by (simp add: ethers_formatEther_def fits_def fixed_18_one fixed_18_zero)
qed

subsection \<open>Rejections\<close>

text \<open>
  Claim C3. When the gas estimation is rejected, the script makes no fee request and no
  display conversion, prints nothing to the output stream (no estimate stands in for the
  missing one), writes the error to the error stream and exits with status 1.
\<close>

theorem estimation_rejected_aborts:
  assumes "getContractFactory h ''Box'' = Inr b"
    and "estimateGas h (getDeployTransaction h b) = Inl e"
  shows "script h =
      (\<lparr>calls = [GetContractFactory ''Box'', GetDeployTransaction b,
                 EstimateGas (getDeployTransaction h b)],
        stdout = [], stderr = [e]\<rparr>, 1)
    \<and> GetFeeData \<notin> set (calls (fst (script h)))
    \<and> (\<forall>c. FormatEther c \<notin> set (calls (fst (script h))))
    \<and> snd (script h) \<noteq> 0"
  using script_estimate_rejects [OF assms] by simp

theorem estimation_rejected_aborts_witness:
  "script (node (Inl (RpcError ''execution reverted'')) (Inr (legacy 20000000000))) =
     (\<lparr>calls = [GetContractFactory ''Box'', GetDeployTransaction ''Box'',
                EstimateGas \<lparr>data = ''Box''\<rparr>],
       stdout = [], stderr = [RpcError ''execution reverted'']\<rparr>, 1)"
  using estimation_rejected_aborts [of "node (Inl (RpcError ''execution reverted''))
      (Inr (legacy 20000000000))" "''Box''" "RpcError ''execution reverted''"]
  by (simp add: node_simps)

text \<open>
  Claim C4. When the fee request is rejected after the gas estimation has succeeded, the
  estimate is printed and nothing else is: the multiplication is not reached, no display
  conversion is called, no cost line is printed, and the script exits with status 1.
\<close>

theorem fee_fetch_rejected_aborts:
  assumes "getContractFactory h ''Box'' = Inr b"
    and "estimateGas h (getDeployTransaction h b) = Inr G"
    and "getFeeData h = Inl e"
  shows "script h =
      (\<lparr>calls = [GetContractFactory ''Box'', GetDeployTransaction b,
                 EstimateGas (getDeployTransaction h b), GetFeeData],
        stdout = [''Estimated gas: '' @ toString G], stderr = [e]\<rparr>, 1)
    \<and> (\<forall>c. FormatEther c \<notin> set (calls (fst (script h))))
    \<and> (\<forall>s. ''Estimated deployment cost: '' @ s \<notin> set (stdout (fst (script h))))
    \<and> snd (script h) \<noteq> 0"
  using script_fee_rejects [OF assms] by simp

theorem fee_fetch_rejected_aborts_witness:
  "script (node (Inr 500000) (Inl (RpcError ''timeout''))) =
     (\<lparr>calls = [GetContractFactory ''Box'', GetDeployTransaction ''Box'',
                EstimateGas \<lparr>data = ''Box''\<rparr>, GetFeeData],
       stdout = [''Estimated gas: 500000''], stderr = [RpcError ''timeout'']\<rparr>, 1)"
  using fee_fetch_rejected_aborts [of "node (Inr 500000) (Inl (RpcError ''timeout''))"
      "''Box''" 500000 "RpcError ''timeout''"]
  by (simp add: node_simps toString_500000)

subsection \<open>The scenarios of the specification\<close>

text \<open>
  Claim C5. With a gas estimate of 500000 and a gas price of 20000000000 (20 gwei), the
  total is 10000000000000000 smallest units and the script prints the cost \<^verbatim>\<open>0.01\<close>,
  for a toolkit that renders the price and the total as ethers does.
\<close>

theorem scenario_half_million_gas:
  assumes "getContractFactory h ''Box'' = Inr b"
    and "estimateGas h (getDeployTransaction h b) = Inr 500000"
    and "getFeeData h = Inr fd"
    and "gasPrice fd = Some 20000000000"
    and "formatUnits h (Some 20000000000) ''gwei'' =
      ethers_formatUnits (Some 20000000000) ''gwei''"
    and "formatEther h 10000000000000000 = ethers_formatEther 10000000000000000"
  shows "mul 500000 (gasPrice fd) = Inr 10000000000000000
    \<and> script h =
      (\<lparr>calls = [GetContractFactory ''Box'', GetDeployTransaction b,
                 EstimateGas (getDeployTransaction h b), GetFeeData,
                 FormatUnits (Some 20000000000) ''gwei'', FormatEther 10000000000000000],
        stdout = [''Estimated gas: 500000'', ''Current gas price: 20.0 gwei'',
                  ''Estimated deployment cost: 0.01 ETH''],
        stderr = []\<rparr>, 0)"
proof
  show "mul 500000 (gasPrice fd) = Inr 10000000000000000"
    using assms(4) by (simp add: mul_def)
  have u: "formatUnits h (Some 20000000000) ''gwei'' = Inr ''20.0''"
    using assms(5) by (simp add: gwei_decimals fits_def fixed_9_20)
  have s: "formatEther h (500000 * 20000000000) = Inr ''0.01''"
    using assms(6) by (simp add: ethers_formatEther_def fits_def fixed_18_cent)
  show "script h =
      (\<lparr>calls = [GetContractFactory ''Box'', GetDeployTransaction b,
                 EstimateGas (getDeployTransaction h b), GetFeeData,
                 FormatUnits (Some 20000000000) ''gwei'', FormatEther 10000000000000000],
        stdout = [''Estimated gas: 500000'', ''Current gas price: 20.0 gwei'',
                  ''Estimated deployment cost: 0.01 ETH''],
        stderr = []\<rparr>, 0)"
    using script_completes [OF assms(1-4) u s] by (simp add: toString_500000)
qed

theorem scenario_half_million_gas_witness:
  "script (node (Inr 500000) (Inr (legacy 20000000000))) =
      (\<lparr>calls = [GetContractFactory ''Box'', GetDeployTransaction ''Box'',
                 EstimateGas \<lparr>data = ''Box''\<rparr>, GetFeeData,
                 FormatUnits (Some 20000000000) ''gwei'', FormatEther 10000000000000000],
        stdout = [''Estimated gas: 500000'', ''Current gas price: 20.0 gwei'',
                  ''Estimated deployment cost: 0.01 ETH''],
        stderr = []\<rparr>, 0)"
  using scenario_half_million_gas [of "node (Inr 500000) (Inr (legacy 20000000000))" "''Box''"
      "legacy 20000000000"]
  by (simp add: node_simps legacy_def)

text \<open>
  Claim C6, as amended. With a gas estimate of 0 the total is 0 whatever the gas price,
  and the printed cost is \<^verbatim>\<open>0.0\<close>, for a toolkit that renders the amount 0 as ethers
  does.
\<close>

theorem zero_estimate_costs_nothing:
  assumes "getContractFactory h ''Box'' = Inr b"
    and "estimateGas h (getDeployTransaction h b) = Inr 0"
    and "getFeeData h = Inr fd"
    and "gasPrice fd = Some P"
    and "formatUnits h (Some P) ''gwei'' = Inr u"
    and "formatEther h 0 = ethers_formatEther 0"
  shows "mul 0 (gasPrice fd) = Inr 0
    \<and> script h =
      (\<lparr>calls = [GetContractFactory ''Box'', GetDeployTransaction b,
                 EstimateGas (getDeployTransaction h b), GetFeeData,
                 FormatUnits (Some P) ''gwei'', FormatEther 0],
        stdout = [''Estimated gas: 0'', ''Current gas price: '' @ u @ '' gwei'',
                  ''Estimated deployment cost: 0.0 ETH''],
        stderr = []\<rparr>, 0)"
proof
  show "mul 0 (gasPrice fd) = Inr 0"
    using assms(4) by (simp add: mul_def)
  have s: "formatEther h (0 * P) = Inr ''0.0''"
    using assms(6) by (simp add: ethers_formatEther_def fits_def fixed_18_zero)
  show "script h =
      (\<lparr>calls = [GetContractFactory ''Box'', GetDeployTransaction b,
                 EstimateGas (getDeployTransaction h b), GetFeeData,
                 FormatUnits (Some P) ''gwei'', FormatEther 0],
        stdout = [''Estimated gas: 0'', ''Current gas price: '' @ u @ '' gwei'',
                  ''Estimated deployment cost: 0.0 ETH''],
        stderr = []\<rparr>, 0)"
    using script_completes [OF assms(1-5) s] by (simp add: toString_0)
qed

theorem zero_estimate_costs_nothing_witness:
  "script (node (Inr 0) (Inr (legacy 1000000000))) =
      (\<lparr>calls = [GetContractFactory ''Box'', GetDeployTransaction ''Box'',
                 EstimateGas \<lparr>data = ''Box''\<rparr>, GetFeeData,
                 FormatUnits (Some 1000000000) ''gwei'', FormatEther 0],
        stdout = [''Estimated gas: 0'', ''Current gas price: 1.0 gwei'',
                  ''Estimated deployment cost: 0.0 ETH''],
        stderr = []\<rparr>, 0)"
proof -
  have "fixed 9 1000000000 = ''1.0''"
    by (simp add: fixed_def dec.simps digit_def Let_def)
  then show ?thesis
    using zero_estimate_costs_nothing [of "node (Inr 0) (Inr (legacy 1000000000))" "''Box''"
        "legacy 1000000000" 1000000000 "''1.0''"]
    by (simp add: node_simps gwei_decimals fits_def legacy_def)
qed

text \<open>
  Claim C6 as the specification words it, that the printed cost is exactly \<^verbatim>\<open>0\<close>,
  fails at a gas price of 20 gwei.
\<close>

theorem zero_estimate_printed_counterexample:
  "last (stdout (fst (script (node (Inr 0) (Inr (legacy 20000000000)))))) =
     ''Estimated deployment cost: 0.0 ETH'' \<and>
   last (stdout (fst (script (node (Inr 0) (Inr (legacy 20000000000)))))) \<noteq>
     ''Estimated deployment cost: 0 ETH''"
proof -
  have "formatEther (node (Inr 0) (Inr (legacy 20000000000))) (0 * 20000000000) = Inr ''0.0''"
    by (simp add: node_simps ethers_formatEther_def fits_def fixed_18_zero)
  then have "last (stdout (fst (script (node (Inr 0) (Inr (legacy 20000000000)))))) =
     ''Estimated deployment cost: 0.0 ETH''"
    using script_completes [of "node (Inr 0) (Inr (legacy 20000000000))" "''Box''"
      0 "legacy 20000000000" 20000000000 "''20.0''" "''0.0''"]
    by (simp add: node_simps gwei_decimals fits_def legacy_def fixed_9_20)
  then show ?thesis by simp
qed

subsection \<open>The exit code\<close>

text \<open>
  Claim C7. The exit code is 0 when \<^verbatim>\<open>main\<close> returns and 1 when it throws; the thrown
  error, and nothing else, is written to the error stream; the output lines and the
  calls are those \<^verbatim>\<open>main\<close> made before it ended, and no call is made twice. The exit
  code is 0 exactly when each of the six steps that can throw has returned. Whichever of
  them throws first (the factory, the gas estimation, the fee request, the formatting of
  the price, the product with a \<^verbatim>\<open>null\<close> price, the display conversion), the run ends
  there with exit code 1 and that error alone on the error stream: nothing is retried,
  nothing is recovered, no later call is made and no later line is printed.
\<close>

theorem exit_code_uniform:
  "snd (script h) = (case fst (main h start) of Inr u \<Rightarrow> 0 | Inl e \<Rightarrow> 1)
   \<and> stderr (fst (script h)) = (case fst (main h start) of Inr u \<Rightarrow> [] | Inl e \<Rightarrow> [e])
   \<and> stdout (fst (script h)) = stdout (snd (main h start))
   \<and> calls (fst (script h)) = calls (snd (main h start))
   \<and> distinct (calls (fst (script h)))
   \<and> (snd (script h) = 0) = (length (stdout (fst (script h))) = 3)
   \<and> (snd (script h) = 0 \<or> snd (script h) = 1)
   \<and> (snd (script h) = 0) =
        (\<exists>b G fd P u s.
           getContractFactory h ''Box'' = Inr b \<and>
           estimateGas h (getDeployTransaction h b) = Inr G \<and>
           getFeeData h = Inr fd \<and>
           gasPrice fd = Some P \<and>
           formatUnits h (Some P) ''gwei'' = Inr u \<and>
           formatEther h (G * P) = Inr s)
   \<and> (getContractFactory h ''Box'' = Inl e \<longrightarrow>
        script h = (\<lparr>calls = [GetContractFactory ''Box''], stdout = [], stderr = [e]\<rparr>, 1))
   \<and> (getContractFactory h ''Box'' = Inr b \<and>
       estimateGas h (getDeployTransaction h b) = Inl e \<longrightarrow>
        script h =
          (\<lparr>calls = [GetContractFactory ''Box'', GetDeployTransaction b,
                     EstimateGas (getDeployTransaction h b)],
            stdout = [], stderr = [e]\<rparr>, 1))
   \<and> (getContractFactory h ''Box'' = Inr b \<and>
       estimateGas h (getDeployTransaction h b) = Inr G \<and>
       getFeeData h = Inl e \<longrightarrow>
        script h =
          (\<lparr>calls = [GetContractFactory ''Box'', GetDeployTransaction b,
                     EstimateGas (getDeployTransaction h b), GetFeeData],
            stdout = [''Estimated gas: '' @ toString G], stderr = [e]\<rparr>, 1))
   \<and> (getContractFactory h ''Box'' = Inr b \<and>
       estimateGas h (getDeployTransaction h b) = Inr G \<and>
       getFeeData h = Inr fd \<and>
       formatUnits h (gasPrice fd) ''gwei'' = Inl e \<longrightarrow>
        script h =
          (\<lparr>calls = [GetContractFactory ''Box'', GetDeployTransaction b,
                     EstimateGas (getDeployTransaction h b), GetFeeData,
                     FormatUnits (gasPrice fd) ''gwei''],
            stdout = [''Estimated gas: '' @ toString G], stderr = [e]\<rparr>, 1))
   \<and> (getContractFactory h ''Box'' = Inr b \<and>
       estimateGas h (getDeployTransaction h b) = Inr G \<and>
       getFeeData h = Inr fd \<and>
       gasPrice fd = None \<and>
       formatUnits h None ''gwei'' = Inr u \<longrightarrow>
        script h =
          (\<lparr>calls = [GetContractFactory ''Box'', GetDeployTransaction b,
                     EstimateGas (getDeployTransaction h b), GetFeeData,
                     FormatUnits None ''gwei''],
            stdout = [''Estimated gas: '' @ toString G,
                      ''Current gas price: '' @ u @ '' gwei''],
            stderr = [TypeError
              ''Cannot mix BigInt and other types, use explicit conversions'']\<rparr>, 1))
   \<and> (getContractFactory h ''Box'' = Inr b \<and>
       estimateGas h (getDeployTransaction h b) = Inr G \<and>
       getFeeData h = Inr fd \<and>
       gasPrice fd = Some P \<and>
       formatUnits h (Some P) ''gwei'' = Inr u \<and>
       formatEther h (G * P) = Inl e \<longrightarrow>
        script h =
          (\<lparr>calls = [GetContractFactory ''Box'', GetDeployTransaction b,
                     EstimateGas (getDeployTransaction h b), GetFeeData,
                     FormatUnits (Some P) ''gwei'', FormatEther (G * P)],
            stdout = [''Estimated gas: '' @ toString G,
                      ''Current gas price: '' @ u @ '' gwei''],
            stderr = [e]\<rparr>, 1))"
proof -
  obtain r p where m: "main h start = (r, p)"
    by (cases "main h start")
  have e: "stderr p = []"
    using main_stderr [of h start] m by (simp add: start_def)
  have d: "distinct (calls p)"
    using main_calls_distinct [of h] m by simp
  have c: "(length (stdout p) = 3) = (r = Inr ())"
    using main_prints_cost_iff [of h] m by simp
  have old: "snd (script h) = (case fst (main h start) of Inr u \<Rightarrow> 0 | Inl e \<Rightarrow> 1)
   \<and> stderr (fst (script h)) = (case fst (main h start) of Inr u \<Rightarrow> [] | Inl e \<Rightarrow> [e])
   \<and> stdout (fst (script h)) = stdout (snd (main h start))
   \<and> calls (fst (script h)) = calls (snd (main h start))
   \<and> distinct (calls (fst (script h)))
   \<and> (snd (script h) = 0) = (length (stdout (fst (script h))) = 3)
   \<and> (snd (script h) = 0 \<or> snd (script h) = 1)"
    using m e d c by (cases r) (simp_all add: script_def console_error_def)
  show ?thesis
    using old script_exit_zero_iff [of h]
      script_factory_rejects [of h e]
      script_estimate_rejects [of h b e]
      script_fee_rejects [of h b G e]
      script_format_units_throws [of h b G fd e]
      script_mul_throws [of h b G fd u]
      script_format_ether_throws [of h b G fd P u e]
    by blast
qed

text \<open>
  Runs that end at the factory, at the formatting of a \<^verbatim>\<open>null\<close> price, at the product
  with a \<^verbatim>\<open>null\<close> price (behind a formatter that lets \<^verbatim>\<open>null\<close> through), and at the
  display conversion of a total outside the range of the library; and the run that
  completes.
\<close>

theorem exit_code_uniform_witness:
  "script ((node (Inr 500000) (Inr (legacy 20000000000)))
      \<lparr>getContractFactory := \<lambda>n. Inl (RpcError ''artifact not found'')\<rparr>) =
     (\<lparr>calls = [GetContractFactory ''Box''], stdout = [],
       stderr = [RpcError ''artifact not found'']\<rparr>, 1)
   \<and> script (node (Inr 500000)
        (Inr \<lparr>gasPrice = None, maxFeePerGas = None, maxPriorityFeePerGas = None\<rparr>)) =
     (\<lparr>calls = [GetContractFactory ''Box'', GetDeployTransaction ''Box'',
                EstimateGas \<lparr>data = ''Box''\<rparr>, GetFeeData, FormatUnits None ''gwei''],
       stdout = [''Estimated gas: 500000''],
       stderr = [InvalidArgument ''invalid BigNumberish value'']\<rparr>, 1)
   \<and> script ((node (Inr 500000)
        (Inr \<lparr>gasPrice = None, maxFeePerGas = None, maxPriorityFeePerGas = None\<rparr>))
      \<lparr>formatUnits := \<lambda>v unit. Inr ''null''\<rparr>) =
     (\<lparr>calls = [GetContractFactory ''Box'', GetDeployTransaction ''Box'',
                EstimateGas \<lparr>data = ''Box''\<rparr>, GetFeeData, FormatUnits None ''gwei''],
       stdout = [''Estimated gas: 500000'', ''Current gas price: null gwei''],
       stderr = [TypeError
         ''Cannot mix BigInt and other types, use explicit conversions'']\<rparr>, 1)
   \<and> snd (script (node (Inr (2 ^ 511)) (Inr (legacy 1)))) = 1
   \<and> stderr (fst (script (node (Inr (2 ^ 511)) (Inr (legacy 1))))) = [RangeError ''overflow'']
   \<and> snd (script (node (Inr 500000) (Inr (legacy 20000000000)))) = 0"
proof -
  let ?null = "\<lparr>gasPrice = None, maxFeePerGas = None, maxPriorityFeePerGas = None\<rparr>"
  have factory: "script ((node (Inr 500000) (Inr (legacy 20000000000)))
      \<lparr>getContractFactory := \<lambda>n. Inl (RpcError ''artifact not found'')\<rparr>) =
     (\<lparr>calls = [GetContractFactory ''Box''], stdout = [],
       stderr = [RpcError ''artifact not found'']\<rparr>, 1)"
    using exit_code_uniform [of "(node (Inr 500000) (Inr (legacy 20000000000)))
      \<lparr>getContractFactory := \<lambda>n. Inl (RpcError ''artifact not found'')\<rparr>"
      "RpcError ''artifact not found''"]
    by (simp add: node_def)
  have units: "script (node (Inr 500000) (Inr ?null)) =
     (\<lparr>calls = [GetContractFactory ''Box'', GetDeployTransaction ''Box'',
                EstimateGas \<lparr>data = ''Box''\<rparr>, GetFeeData, FormatUnits None ''gwei''],
       stdout = [''Estimated gas: 500000''],
       stderr = [InvalidArgument ''invalid BigNumberish value'']\<rparr>, 1)"
    using exit_code_uniform [of "node (Inr 500000) (Inr ?null)"
      "InvalidArgument ''invalid BigNumberish value''" "''Box''" 500000 ?null]
    by (simp add: node_simps ethers_formatUnits_def ethers_names_def toString_500000)
  have product: "script ((node (Inr 500000) (Inr ?null))
      \<lparr>formatUnits := \<lambda>v unit. Inr ''null''\<rparr>) =
     (\<lparr>calls = [GetContractFactory ''Box'', GetDeployTransaction ''Box'',
                EstimateGas \<lparr>data = ''Box''\<rparr>, GetFeeData, FormatUnits None ''gwei''],
       stdout = [''Estimated gas: 500000'', ''Current gas price: null gwei''],
       stderr = [TypeError
         ''Cannot mix BigInt and other types, use explicit conversions'']\<rparr>, 1)"
    using exit_code_uniform [of "(node (Inr 500000) (Inr ?null))
      \<lparr>formatUnits := \<lambda>v unit. Inr ''null''\<rparr>" _ "''Box''" 500000 ?null "''null''"]
    by (simp add: node_def toString_500000)
  have ether: "snd (script (node (Inr (2 ^ 511)) (Inr (legacy 1)))) = 1
      \<and> stderr (fst (script (node (Inr (2 ^ 511)) (Inr (legacy 1))))) = [RangeError ''overflow'']"
    using exit_code_uniform [of "node (Inr (2 ^ 511)) (Inr (legacy 1))"
      "RangeError ''overflow''" "''Box''" "2 ^ 511" "legacy 1" "fixed 9 1" 1]
    by (simp add: node_simps gwei_decimals ethers_formatEther_def fits_def legacy_def)
  have completes: "snd (script (node (Inr 500000) (Inr (legacy 20000000000)))) = 0"
    using exit_code_uniform [of "node (Inr 500000) (Inr (legacy 20000000000))"
      "RangeError ''overflow''" "''Box''" 500000 "legacy 20000000000" "''20.0''" 20000000000]
    by (simp add: node_simps gwei_decimals ethers_formatEther_def fits_def legacy_def)
  show ?thesis
    using factory units product ether completes by simp
qed

section \<open>The calls of the Box contract\<close>

lemma positive_iff_nonzero: "(0 < v) = (v \<noteq> 0)" for v :: uint256
  by (simp add: word_neq_0_conv)

lemma value_store: "value' (snd (store v s)) = (if v = 0 then value' s else v)"
  by (simp add: store_def positive_iff_nonzero)

lemma value_retrieve: "value' (snd (retrieve s)) = value' s"
  by (simp add: retrieve_def)

lemma history_snoc: "history (ms @ [m]) = transact (history ms) m"
  by (simp add: history_def)

lemma successful_stores_snoc:
  "successful_stores (ms @ [m]) =
    successful_stores ms @ (case m of Store v \<Rightarrow> (if v = 0 then [] else [v]) | Retrieve \<Rightarrow> [])"
  by (simp add: successful_stores_def)

text \<open>
  The variable holds the argument of the last successful \<^verbatim>\<open>store\<close> of the history:
  induction on the history from its end, one case for each kind of call.
\<close>

lemma value_history: "value' (history ms) = last_stored ms"
proof (induction ms rule: rev_induct)
  case Nil
  show ?case
    by (simp add: history_def deployed_def last_stored_def successful_stores_def)
next
  case (snoc m ms)
  show ?case
  proof (cases m)
    case (Store v)
    with snoc show ?thesis
      by (simp add: history_snoc value_store value_retrieve successful_stores_snoc last_stored_def)
  next
    case Retrieve
    with snoc show ?thesis
      by (simp add: history_snoc value_store value_retrieve successful_stores_snoc last_stored_def)
  qed
qed

text \<open>
  Claim C8. A call of \<^verbatim>\<open>store\<close> with argument \<open>v\<close> succeeds, sets the variable to \<open>v\<close>
  and logs the event, exactly when \<open>v > 0\<close>; on an unsigned word that is every \<open>v\<close> but
  zero. A call with \<open>v = 0\<close> reverts with the reason of the \<^verbatim>\<open>require\<close> and leaves the
  state as it was.
\<close>

theorem store_succeeds_iff_positive:
  "(store v s = (Inr (), s\<lparr>value' := v, log := log s @ [ValueChanged v]\<rparr>)) = (v > 0)
   \<and> (fst (store v s) = Inr ()) = (v > 0)
   \<and> (v > 0) = (v \<noteq> 0)
   \<and> store 0 s = (Inl (Revert ''Value must be greater than 0''), s)"
  by (simp add: store_def positive_iff_nonzero)

text \<open>
  Claim C9. \<^verbatim>\<open>retrieve\<close> on a freshly deployed contract returns 0; after any history of
  calls it returns the argument of the last successful \<^verbatim>\<open>store\<close>, or 0 when there was
  none; right after a successful \<^verbatim>\<open>store\<close> of \<open>v\<close> it returns \<open>v\<close>; and it leaves the
  state as it was.
\<close>

theorem retrieve_returns_last_stored:
  "retrieve deployed = (0, deployed)
   \<and> fst (retrieve (history ms)) = last_stored ms
   \<and> (v > 0 \<longrightarrow> fst (retrieve (snd (store v s))) = v)
   \<and> snd (retrieve s) = s"
  by (simp add: retrieve_def value_history store_def deployed_def)

text \<open>The session of the workshop text, \<^verbatim>\<open>store(33)\<close>, with a rejected \<^verbatim>\<open>store(0)\<close> after it.\<close>

theorem retrieve_returns_last_stored_witness:
  "fst (retrieve (history [Retrieve, Store 33, Store 0, Retrieve])) = 33
   \<and> fst (retrieve (snd (store 33 deployed))) = 33"
proof -
  have "last_stored [Retrieve, Store 33, Store 0, Retrieve] = 33"
    by (simp add: last_stored_def successful_stores_def)
  moreover have "(0::uint256) < 33"
    by simp
  ultimately show ?thesis
    using retrieve_returns_last_stored [of "[Retrieve, Store 33, Store 0, Retrieve]" 33 deployed]
    by simp
qed

section \<open>Loading the configuration\<close>

text \<open>
  Claim C10. The module reads \<^verbatim>\<open>secrets.json\<close> whatever the network: when the file is
  missing, or its text is not JSON, evaluating the module throws, and every run of a
  script ends with that error on the error stream and exit code 1 before the script
  starts, on the framework's own local networks as on any other. With the plugin
  installed the error is the missing module or the syntax error of \<^verbatim>\<open>secrets.json\<close>.
\<close>

theorem config_requires_secrets:
  assumes "files env ''./secrets.json'' = None
    \<or> (\<exists>text. files env ''./secrets.json'' = Some text \<and> JSON_parse env text = None)"
  shows "\<exists>e. hardhat_config env = Inl e
    \<and> (\<forall>name. hardhat_run env connect name scr =
          (\<lparr>calls = [], stdout = [], stderr = [e]\<rparr>, 1))
    \<and> (''@nomicfoundation/hardhat-ethers'' \<in> set (installed env) \<longrightarrow>
          e = (if files env ''./secrets.json'' = None then ModuleNotFound ''./secrets.json''
               else SyntaxError ''./secrets.json''))"
proof -
  have "\<exists>e. require_json env ''./secrets.json'' = Inl e
      \<and> e = (if files env ''./secrets.json'' = None then ModuleNotFound ''./secrets.json''
               else SyntaxError ''./secrets.json'')"
    using assms by (auto simp: require_json_def)
  then obtain e where e: "require_json env ''./secrets.json'' = Inl e"
    "e = (if files env ''./secrets.json'' = None then ModuleNotFound ''./secrets.json''
               else SyntaxError ''./secrets.json'')"
    by blast
  show ?thesis
  proof (cases "require_package env ''@nomicfoundation/hardhat-ethers''")
    case (Inl e')
    then have "''@nomicfoundation/hardhat-ethers'' \<notin> set (installed env)"
      by (simp add: require_package_def split: if_splits)
    with Inl show ?thesis
      by (simp add: hardhat_config_def hardhat_run_def console_error_def start_def)
  next
    case (Inr u)
    with e show ?thesis
      by (simp add: hardhat_config_def hardhat_run_def console_error_def start_def)
  qed
qed

text \<open>A run on \<^verbatim>\<open>localhost\<close> with no file, and a run on \<^verbatim>\<open>hardhat\<close> with a file that is not JSON.\<close>

theorem config_requires_secrets_witness:
  "hardhat_run \<lparr>installed = [''hardhat'', ''@nomicfoundation/hardhat-ethers''],
       files = Map.empty, JSON_parse = (\<lambda>t. None)\<rparr>
     (\<lambda>c n. node (Inr 500000) (Inr (legacy 20000000000))) ''localhost'' script =
     (\<lparr>calls = [], stdout = [], stderr = [ModuleNotFound ''./secrets.json'']\<rparr>, 1)
   \<and> hardhat_run \<lparr>installed = [''hardhat'', ''@nomicfoundation/hardhat-ethers''],
       files = [''./secrets.json'' \<mapsto> ''{''], JSON_parse = (\<lambda>t. None)\<rparr>
     (\<lambda>c n. node (Inr 500000) (Inr (legacy 20000000000))) ''hardhat'' script =
     (\<lparr>calls = [], stdout = [], stderr = [SyntaxError ''./secrets.json'']\<rparr>, 1)"
  using config_requires_secrets [of "\<lparr>installed = [''hardhat'', ''@nomicfoundation/hardhat-ethers''],
       files = Map.empty, JSON_parse = (\<lambda>t. None)\<rparr>"
       "\<lambda>c n. node (Inr 500000) (Inr (legacy 20000000000))" script]
    config_requires_secrets [of "\<lparr>installed = [''hardhat'', ''@nomicfoundation/hardhat-ethers''],
       files = [''./secrets.json'' \<mapsto> ''{''], JSON_parse = (\<lambda>t. None)\<rparr>"
       "\<lambda>c n. node (Inr 500000) (Inr (legacy 20000000000))" script]
  by auto

end
